theory Spec2Isabelle
  imports Complex_Main "HOL-Library.Word"
begin

section \<open>Data\<close>

text \<open>
  The program (\<^verbatim>\<open>imageprocessing.go\<close>) is glue code around the Go standard library
  (\<^verbatim>\<open>os\<close>, \<^verbatim>\<open>path\<close>, \<^verbatim>\<open>image\<close>, \<^verbatim>\<open>image/jpeg\<close>, \<^verbatim>\<open>math/rand\<close>, \<^verbatim>\<open>time\<close>,
  \<^verbatim>\<open>log\<close>, \<^verbatim>\<open>fmt\<close>) and three third-party packages (\<^verbatim>\<open>smartcrop\<close>, \<^verbatim>\<open>bild\<close>,
  \<^verbatim>\<open>primitive\<close>). None of these is part of the repository, so every library function
  is a field of the record \<open>env\<close> below and every theorem holds for all environments.
  The eight functions of the source file are embedded one to one.
\<close>

type_synonym byte = "8 word"

text \<open>The file system as the program sees it: a path names at most one file.\<close>

type_synonym file_system = "string \<rightharpoonup> byte list"

text \<open>
  Go \<^verbatim>\<open>error\<close> values. An error coming out of a library is opaque (\<open>Library\<close>);
  \<^verbatim>\<open>errors.New\<close> and \<^verbatim>\<open>errors.Wrap\<close> of \<^verbatim>\<open>github.com/pkg/errors\<close> build the others.
\<close>

datatype error =
    Library string
  | errors_New string
  | errors_Wrap error string

text \<open>\<^verbatim>\<open>image.Rectangle\<close>: the corners \<^verbatim>\<open>Min\<close> and \<^verbatim>\<open>Max\<close>, \<^verbatim>\<open>Max\<close> exclusive.\<close>

record rectangle =
  MinX :: int
  MinY :: int
  MaxX :: int
  MaxY :: int

text \<open>A pixel value as \<^verbatim>\<open>At\<close> returns it (four channels).\<close>

datatype colour = Colour int int int int

text \<open>The resampling filter handed to \<^verbatim>\<open>transform.Resize\<close>; the program uses only this one.\<close>

datatype resample_filter = Linear

text \<open>
  Every call that leaves the source file is recorded, with its arguments, in the order in
  which the program makes it. The trace is the observable behaviour of a run.
\<close>

datatype 'img event =
    Ev_os_Open string
  | Ev_jpeg_Decode "byte list"
  | Ev_os_Create string
  | Ev_jpeg_Encode string 'img int
  | Ev_smartcrop_Crop 'img int int
  | Ev_SubImage 'img rectangle
  | Ev_Saturation 'img real
  | Ev_Multiply 'img 'img
  | Ev_UnsharpMask 'img real real
  | Ev_Resize 'img int int resample_filter
  | Ev_rand_Seed int
  | Ev_AverageImageColor 'img
  | Ev_MakeColor colour
  | Ev_NewModel 'img colour int int
  | Ev_fmt_Print string
  | Ev_Step int int int
  | Ev_Context_Image
  | Ev_log_Fatal error

text \<open>
  The libraries. \<open>'img\<close> is whatever stands behind an \<^verbatim>\<open>image.Image\<close> interface value,
  \<open>'model\<close> is \<^verbatim>\<open>*primitive.Model\<close>.

  \<^item> \<open>open_fault\<close>, \<open>create_fault\<close>: why the operating system refuses to open or create a
    path (\<open>None\<close>: it does not refuse).
  \<^item> \<open>jpeg_Encode\<close> returns the bytes that reached the writer and the error, if any, that
    stopped it.
  \<^item> \<open>SubImager\<close> is the type assertion \<^verbatim>\<open>img.(SubImager)\<close>: \<open>Some\<close> of the image's
    \<^verbatim>\<open>SubImage\<close> method when its dynamic type has one.
  \<^item> \<open>primitive_NewModel\<close> and \<open>model_Step\<close> take the state of the global random source
    as their last argument and return the state they leave behind.
\<close>

record ('img, 'model) env =
  path_Join :: "string \<Rightarrow> string \<Rightarrow> string"
  open_fault :: "file_system \<Rightarrow> string \<Rightarrow> error option"
  create_fault :: "file_system \<Rightarrow> string \<Rightarrow> error option"
  jpeg_Decode :: "byte list \<Rightarrow> error + 'img"
  jpeg_Encode :: "'img \<Rightarrow> int \<Rightarrow> byte list \<times> error option"
  Bounds :: "'img \<Rightarrow> rectangle"
  At :: "'img \<Rightarrow> int \<Rightarrow> int \<Rightarrow> colour"
  SubImager :: "'img \<Rightarrow> (rectangle \<Rightarrow> 'img) option"
  smartcrop_Crop :: "'img \<Rightarrow> int \<Rightarrow> int \<Rightarrow> error + rectangle"
  adjust_Saturation :: "'img \<Rightarrow> real \<Rightarrow> 'img"
  blend_Multiply :: "'img \<Rightarrow> 'img \<Rightarrow> 'img"
  effect_UnsharpMask :: "'img \<Rightarrow> real \<Rightarrow> real \<Rightarrow> 'img"
  transform_Resize :: "'img \<Rightarrow> int \<Rightarrow> int \<Rightarrow> resample_filter \<Rightarrow> 'img"
  primitive_AverageImageColor :: "'img \<Rightarrow> colour"
  primitive_MakeColor :: "colour \<Rightarrow> colour"
  primitive_NewModel :: "'img \<Rightarrow> colour \<Rightarrow> int \<Rightarrow> int \<Rightarrow> int \<Rightarrow> 'model \<times> int"
  model_Step :: "'model \<Rightarrow> int \<Rightarrow> int \<Rightarrow> int \<Rightarrow> int \<Rightarrow> 'model \<times> int"
  model_Context_Image :: "'model \<Rightarrow> 'img"
  runtime_NumCPU :: int

text \<open>
  What a run can read and change: the files, the wall clock (\<^verbatim>\<open>UnixNano\<close> of
  \<^verbatim>\<open>time.Now()\<close>, which the program reads once, in \<^verbatim>\<open>primitivePicture\<close>), the state
  of the global random source of \<^verbatim>\<open>math/rand\<close>, and the trace of calls made so far.
\<close>

record 'img world =
  files :: file_system
  clock :: int
  rand_source :: int
  trace :: "'img event list"

datatype outcome = Returned | Exit int

definition emit :: "'img event \<Rightarrow> 'img world \<Rightarrow> 'img world" where
  "emit e w = w\<lparr>trace := trace w @ [e]\<rparr>"


section \<open>The operating system\<close>

text \<open>
  \<^verbatim>\<open>os.Open\<close> yields the content of an existing file unless the system refuses;
  \<^verbatim>\<open>os.Create\<close> "creates or truncates the named file": afterwards the path names an
  empty file, whatever it named before.
\<close>

definition os_Open :: "('img, 'model) env \<Rightarrow> file_system \<Rightarrow> string \<Rightarrow> error + byte list" where
  "os_Open E fs p =
    (case open_fault E fs p of
       Some err \<Rightarrow> Inl err
     | None \<Rightarrow>
        (case fs p of
           None \<Rightarrow> Inl (Library (''open '' @ p @ '': no such file or directory''))
         | Some content \<Rightarrow> Inr content))"

definition os_Create :: "('img, 'model) env \<Rightarrow> file_system \<Rightarrow> string \<Rightarrow> error + file_system" where
  "os_Create E fs p =
    (case create_fault E fs p of
       Some err \<Rightarrow> Inl err
     | None \<Rightarrow> Inr (fs(p \<mapsto> [])))"


section \<open>The functions of \<^verbatim>\<open>imageprocessing.go\<close>\<close>

text \<open>\<^verbatim>\<open>openImage\<close> (lines 96 to 109).\<close>

definition openImage ::
  "('img, 'model) env \<Rightarrow> 'img world \<Rightarrow> string \<Rightarrow> 'img world \<times> (error + 'img)" where
  "openImage E w path =
    (let w1 = emit (Ev_os_Open path) w in
     case os_Open E (files w1) path of
       Inl err \<Rightarrow> (w1, Inl (errors_Wrap err (''Cannot open '' @ path)))
     | Inr imgFile \<Rightarrow>
        (let w2 = emit (Ev_jpeg_Decode imgFile) w1 in
         case jpeg_Decode E imgFile of
           Inl err \<Rightarrow> (w2, Inl (errors_Wrap err ''Decoding the image failed.''))
         | Inr img \<Rightarrow> (w2, Inr img)))"

text \<open>
  \<^verbatim>\<open>saveImage\<close> (lines 112 to 124). The file is created first and the encoder then
  writes into it; whatever the encoder wrote is the content of the file, also when the
  encoder stops with an error. The result is Go's \<^verbatim>\<open>error\<close>: \<open>None\<close> is \<^verbatim>\<open>nil\<close>.
\<close>

definition saveImage ::
  "('img, 'model) env \<Rightarrow> 'img world \<Rightarrow> 'img \<Rightarrow> string \<Rightarrow> string \<Rightarrow> 'img world \<times> error option" where
  "saveImage E w img pname fname =
    (let fpath = path_Join E pname fname;
         w1 = emit (Ev_os_Create fpath) w in
     case os_Create E (files w1) fpath of
       Inl err \<Rightarrow> (w1, Some (errors_Wrap err (''Cannot create file: '' @ fpath)))
     | Inr fs1 \<Rightarrow>
        (let (written, res) = jpeg_Encode E img 85;
             w2 = emit (Ev_jpeg_Encode fpath img 85) (w1\<lparr>files := fs1(fpath \<mapsto> written)\<rparr>) in
         case res of
           Some err \<Rightarrow> (w2, Some (errors_Wrap err ''Failed to encode the image as JPEG''))
         | None \<Rightarrow> (w2, None)))"

text \<open>
  \<^verbatim>\<open>crop\<close> (lines 150 to 167): the detector first, then the type assertion, then
  \<^verbatim>\<open>SubImage\<close> on the rectangle exactly as the detector returned it.
\<close>

definition crop ::
  "('img, 'model) env \<Rightarrow> 'img world \<Rightarrow> 'img \<Rightarrow> int \<Rightarrow> int \<Rightarrow> 'img world \<times> (error + 'img)" where
  "crop E w img width height =
    (let w1 = emit (Ev_smartcrop_Crop img width height) w in
     case smartcrop_Crop E img width height of
       Inl err \<Rightarrow> (w1, Inl (errors_Wrap err ''Smartcrop failed''))
     | Inr rect \<Rightarrow>
        (case SubImager E img of
           None \<Rightarrow> (w1, Inl (errors_New ''crop(): img does not support SubImage()''))
         | Some si \<Rightarrow> (emit (Ev_SubImage img rect) w1, Inr (si rect))))"

text \<open>
  \<^verbatim>\<open>saturate\<close> (line 190), \<^verbatim>\<open>multiply\<close> (line 210) and \<^verbatim>\<open>sharpen\<close> (line 226). Each
  is one library call on its argument; the world is passed through only to record the call.
\<close>

definition saturate :: "('img, 'model) env \<Rightarrow> 'img world \<Rightarrow> 'img \<Rightarrow> 'img world \<times> 'img" where
  "saturate E w img = (emit (Ev_Saturation img 0.5) w, adjust_Saturation E img 0.5)"

definition multiply :: "('img, 'model) env \<Rightarrow> 'img world \<Rightarrow> 'img \<Rightarrow> 'img world \<times> 'img" where
  "multiply E w img = (emit (Ev_Multiply img img) w, blend_Multiply E img img)"

definition sharpen :: "('img, 'model) env \<Rightarrow> 'img world \<Rightarrow> 'img \<Rightarrow> 'img world \<times> 'img" where
  "sharpen E w img = (emit (Ev_UnsharpMask img 0.6 1.2) w, effect_UnsharpMask E img 0.6 1.2)"

text \<open>
  The loop of \<^verbatim>\<open>primitivePicture\<close> (lines 260 to 266):
  \<^verbatim>\<open>for i := 0; i < 100; i++ { fmt.Print("."); model.Step(primitive.ShapeType(5), 128, 0) }\<close>.
\<close>

function step_loop ::
  "('img, 'model) env \<Rightarrow> int \<Rightarrow> 'model \<Rightarrow> 'img world \<Rightarrow> 'model \<times> 'img world" where
  "step_loop E i model w =
    (if i < 100 then
       (let w1 = emit (Ev_fmt_Print ''.'') w;
            (model', r') = model_Step E model 5 128 0 (rand_source w1);
            w2 = emit (Ev_Step 5 128 0) (w1\<lparr>rand_source := r'\<rparr>) in
        step_loop E (i + 1) model' w2)
     else (model, w))"
  by pat_completeness auto
termination
  by (relation "measure (\<lambda>(E, i, model, w). nat (100 - i))") auto

declare step_loop.simps [simp del]

text \<open>\<^verbatim>\<open>primitivePicture\<close> (lines 244 to 269).\<close>

definition primitivePicture ::
  "('img, 'model) env \<Rightarrow> 'img world \<Rightarrow> 'img \<Rightarrow> 'img world \<times> 'img" where
  "primitivePicture E w img0 =
    (let img = transform_Resize E img0 256 256 Linear;
         w1 = emit (Ev_Resize img0 256 256 Linear) w;
         seed = clock w1;
         w2 = emit (Ev_rand_Seed seed) (w1\<lparr>rand_source := seed\<rparr>);
         avg = primitive_AverageImageColor E img;
         w3 = emit (Ev_AverageImageColor img) w2;
         bg = primitive_MakeColor E avg;
         w4 = emit (Ev_MakeColor avg) w3;
         (model, r) = primitive_NewModel E img bg 1024 (runtime_NumCPU E) (rand_source w4);
         w5 = emit (Ev_NewModel img bg 1024 (runtime_NumCPU E)) (w4\<lparr>rand_source := r\<rparr>);
         (model', w6) = step_loop E 0 model w5 in
     (emit Ev_Context_Image w6, model_Context_Image E model'))"

text \<open>\<^verbatim>\<open>log.Fatal(err)\<close>: the error is printed and the process exits with status 1.\<close>

definition log_Fatal :: "error \<Rightarrow> 'img world \<Rightarrow> 'img world \<times> outcome" where
  "log_Fatal err w = (emit (Ev_log_Fatal err) w, Exit 1)"

text \<open>\<^verbatim>\<open>main\<close> (lines 294 to 344).\<close>

definition main :: "('img, 'model) env \<Rightarrow> 'img world \<Rightarrow> 'img world \<times> outcome" where
  "main E w0 =
    (case openImage E w0 ''original.jpg'' of
       (w1, Inl err) \<Rightarrow> log_Fatal err w1
     | (w1, Inr img0) \<Rightarrow>
    (case crop E w1 img0 1000 1000 of
       (w2, Inl err) \<Rightarrow> log_Fatal err w2
     | (w2, Inr cropped) \<Rightarrow>
    (case saveImage E w2 cropped ''.'' ''cropped.jpg'' of
       (w3, Some err) \<Rightarrow> log_Fatal err w3
     | (w3, None) \<Rightarrow>
    (case openImage E w3 ''cropped.jpg'' of
       (w4, Inl err) \<Rightarrow> log_Fatal err w4
     | (w4, Inr img) \<Rightarrow>
    (case saturate E w4 img of (w5, sat) \<Rightarrow>
    (case saveImage E w5 sat ''.'' ''saturated.jpg'' of
       (w6, Some err) \<Rightarrow> log_Fatal err w6
     | (w6, None) \<Rightarrow>
    (case multiply E w6 img of (w7, mult) \<Rightarrow>
    (case saveImage E w7 mult ''.'' ''multiplied.jpg'' of
       (w8, Some err) \<Rightarrow> log_Fatal err w8
     | (w8, None) \<Rightarrow>
    (case sharpen E w8 sat of (w9, shrp) \<Rightarrow>
    (case saveImage E w9 shrp ''.'' ''sharpened.jpg'' of
       (w10, Some err) \<Rightarrow> log_Fatal err w10
     | (w10, None) \<Rightarrow>
    (case primitivePicture E w10 sat of (w11, pri) \<Rightarrow>
    (case saveImage E w11 pri ''.'' ''primitive.jpg'' of
       (w12, Some err) \<Rightarrow> log_Fatal err w12
     | (w12, None) \<Rightarrow> (w12, Returned)))))))))))))"


section \<open>Rectangles\<close>

text \<open>
  The geometry of Go's \<^verbatim>\<open>image\<close> package, in which the library contracts below are
  stated: \<^verbatim>\<open>Rectangle.Empty\<close>, \<^verbatim>\<open>Rectangle.Intersect\<close> (the zero rectangle when the
  two do not overlap), \<^verbatim>\<open>Rectangle.In\<close> (an empty rectangle is in every rectangle) and
  \<^verbatim>\<open>Point.In\<close>.
\<close>

definition ZR :: rectangle where
  "ZR = \<lparr>MinX = 0, MinY = 0, MaxX = 0, MaxY = 0\<rparr>"

definition rect_Empty :: "rectangle \<Rightarrow> bool" where
  "rect_Empty r \<longleftrightarrow> MinX r \<ge> MaxX r \<or> MinY r \<ge> MaxY r"

definition rect_Intersect :: "rectangle \<Rightarrow> rectangle \<Rightarrow> rectangle" where
  "rect_Intersect r s =
    (let c = \<lparr>MinX = max (MinX r) (MinX s), MinY = max (MinY r) (MinY s),
              MaxX = min (MaxX r) (MaxX s), MaxY = min (MaxY r) (MaxY s)\<rparr>
     in if rect_Empty c then ZR else c)"


definition point_In :: "int \<Rightarrow> int \<Rightarrow> rectangle \<Rightarrow> bool" where
  "point_In x y r \<longleftrightarrow> MinX r \<le> x \<and> x < MaxX r \<and> MinY r \<le> y \<and> y < MaxY r"


section \<open>Reading a trace\<close>

text \<open>The files a trace creates, the files it opens, and the qualities it encodes with.\<close>

fun created :: "'img event \<Rightarrow> string list" where
  "created (Ev_os_Create p) = [p]"
| "created _ = []"

fun opened :: "'img event \<Rightarrow> string list" where
  "opened (Ev_os_Open p) = [p]"
| "opened _ = []"

fun encoded_quality :: "'img event \<Rightarrow> int list" where
  "encoded_quality (Ev_jpeg_Encode p img q) = [q]"
| "encoded_quality _ = []"

text \<open>The model and the random source after one \<^verbatim>\<open>model.Step(primitive.ShapeType(5), 128, 0)\<close>.\<close>

definition fit_step :: "('img, 'model) env \<Rightarrow> 'model \<times> int \<Rightarrow> 'model \<times> int" where
  "fit_step E = (\<lambda>(model, r). model_Step E model 5 128 0 r)"

text \<open>The calls of the loop of \<^verbatim>\<open>primitivePicture\<close> when it runs \<open>n\<close> times.\<close>

definition loop_events :: "nat \<Rightarrow> 'img event list" where
  "loop_events n = concat (replicate n [Ev_fmt_Print ''.'', Ev_Step 5 128 0])"


section \<open>A reference environment\<close>

text \<open>
  A small instance of the library interface on which the theorems are exercised. Its
  images are either views of a numbered pixel buffer, with \<^verbatim>\<open>SubImage\<close> as the raster
  types of the standard library have it (the bounds are intersected, the buffer is
  shared, an empty intersection gives an image without buffer), or uniform images in
  the manner of \<^verbatim>\<open>image.Uniform\<close>, which has no \<^verbatim>\<open>SubImage\<close> method and is too large
  to encode. Decoding puts the pixels into a buffer of its own, numbered from the third
  byte of the file; encoding writes the number of the buffer as the third byte. The
  detector proposes the top left window of the requested size, the effects renumber the
  buffer, and a model counts its shapes.
\<close>

datatype raster = Raster "nat option" rectangle | Uniform colour

fun raster_Bounds :: "raster \<Rightarrow> rectangle" where
  "raster_Bounds (Raster b r) = r"
| "raster_Bounds (Uniform c) =
     \<lparr>MinX = - 1000000000, MinY = - 1000000000, MaxX = 1000000000, MaxY = 1000000000\<rparr>"

fun raster_buffer :: "raster \<Rightarrow> nat option" where
  "raster_buffer (Raster b r) = b"
| "raster_buffer (Uniform c) = None"

fun raster_At :: "raster \<Rightarrow> int \<Rightarrow> int \<Rightarrow> colour" where
  "raster_At (Raster (Some b) r) x y =
     (if point_In x y r then Colour (int b) x y 255 else Colour 0 0 0 0)"
| "raster_At (Raster None r) x y = Colour 0 0 0 0"
| "raster_At (Uniform c) x y = c"

definition raster_SubImage :: "nat option \<Rightarrow> rectangle \<Rightarrow> rectangle \<Rightarrow> raster" where
  "raster_SubImage b r r' =
    (let i = rect_Intersect r' r in if rect_Empty i then Raster None ZR else Raster b i)"

fun raster_SubImager :: "raster \<Rightarrow> (rectangle \<Rightarrow> raster) option" where
  "raster_SubImager (Raster b r) = Some (raster_SubImage b r)"
| "raster_SubImager (Uniform c) = None"

fun renumber :: "nat \<Rightarrow> raster \<Rightarrow> raster" where
  "renumber k (Raster (Some b) r) = Raster (Some (b + k)) r"
| "renumber k img = img"

fun raster_Decode :: "byte list \<Rightarrow> error + raster" where
  "raster_Decode (b0 # b1 # b2 # rest) =
     Inr (Raster (Some (100 + unat b2)) \<lparr>MinX = 0, MinY = 0, MaxX = 4, MaxY = 3\<rparr>)"
| "raster_Decode bs = Inl (Library ''unexpected EOF'')"

fun raster_Encode :: "raster \<Rightarrow> int \<Rightarrow> byte list \<times> error option" where
  "raster_Encode (Raster (Some b) r) q = ([0xFF, 0xD8, of_nat b, of_int q], None)"
| "raster_Encode (Raster None r) q = ([0xFF, 0xD8], None)"
| "raster_Encode (Uniform c) q = ([], Some (Library ''jpeg: image is too large to encode''))"

definition top_left_window :: "raster \<Rightarrow> int \<Rightarrow> int \<Rightarrow> error + rectangle" where
  "top_left_window img width height =
    (if width \<le> 0 \<or> height \<le> 0 then Inl (Library ''invalid dimensions'')
     else Inr \<lparr>MinX = 0, MinY = 0, MaxX = width, MaxY = height\<rparr>)"

definition sample_env :: "(raster, nat) env" where
  "sample_env =
    \<lparr>path_Join = (\<lambda>d f. if d = ''.'' then f else d @ ''/'' @ f),
     open_fault = (\<lambda>fs p. None),
     create_fault = (\<lambda>fs p. None),
     jpeg_Decode = raster_Decode,
     jpeg_Encode = raster_Encode,
     Bounds = raster_Bounds,
     At = raster_At,
     SubImager = raster_SubImager,
     smartcrop_Crop = top_left_window,
     adjust_Saturation = (\<lambda>img amount. renumber 10 img),
     blend_Multiply = (\<lambda>a b. renumber 20 a),
     effect_UnsharpMask = (\<lambda>img radius amount. renumber 30 img),
     transform_Resize =
       (\<lambda>img width height f. Raster (raster_buffer img) \<lparr>MinX = 0, MinY = 0, MaxX = width, MaxY = height\<rparr>),
     primitive_AverageImageColor = (\<lambda>img. raster_At img 0 0),
     primitive_MakeColor = (\<lambda>c. c),
     primitive_NewModel = (\<lambda>img bg size workers r. (0, r + 1)),
     model_Step = (\<lambda>model shape alpha repeat r. (Suc model, r + 1)),
     model_Context_Image =
       (\<lambda>model. Raster (Some model) \<lparr>MinX = 0, MinY = 0, MaxX = 1024, MaxY = 1024\<rparr>),
     runtime_NumCPU = 4\<rparr>"

definition sample_world :: "raster world" where
  "sample_world =
    \<lparr>files = [''original.jpg'' \<mapsto> [0xFF, 0xD8, 0x01]],
     clock = 1482500000000000000,
     rand_source = 0,
     trace = []\<rparr>"

text \<open>
  Variants of the reference environment in which one thing goes wrong: the system refuses
  to create, or to open, one path; the detector finds no crop.
\<close>

definition refusing_create :: "string \<Rightarrow> (raster, nat) env" where
  "refusing_create p =
     sample_env\<lparr>create_fault := (\<lambda>fs q. if q = p then Some (Library ''permission denied'') else None)\<rparr>"

definition refusing_open :: "string \<Rightarrow> (raster, nat) env" where
  "refusing_open p =
     sample_env\<lparr>open_fault := (\<lambda>fs q. if q = p then Some (Library ''permission denied'') else None)\<rparr>"

definition failing_detector :: "(raster, nat) env" where
  "failing_detector =
     sample_env\<lparr>smartcrop_Crop := (\<lambda>img width height. Inl (Library ''no crop found''))\<rparr>"


section \<open>The order of steps as the specification lists it\<close>



section \<open>What each function does\<close>

text \<open>The loop runs the step \<open>100 - i\<close> times, printing a dot before each.\<close>

lemma step_loop_closed:
  "step_loop E i model w =
    (case (fit_step E ^^ nat (100 - i)) (model, rand_source w) of
       (model', r') \<Rightarrow>
         (model', w\<lparr>rand_source := r', trace := trace w @ loop_events (nat (100 - i))\<rparr>))"
proof (induction E i model w rule: step_loop.induct)
  case (1 E i model w)
  show ?case
  proof (cases "i < 100")
    case True
    then have n: "nat (100 - i) = Suc (nat (100 - (i + 1)))" by simp
    obtain m1 r1 where s1: "model_Step E model 5 128 0 (rand_source w) = (m1, r1)"
      by (cases "model_Step E model 5 128 0 (rand_source w)")
    have e: "rand_source (emit (Ev_fmt_Print ''.'') w) = rand_source w" by (simp add: emit_def)
    have ih: "step_loop E (i + 1) m1 (emit (Ev_Step 5 128 0) (emit (Ev_fmt_Print ''.'') w\<lparr>rand_source := r1\<rparr>)) =
      (case (fit_step E ^^ nat (100 - (i + 1))) (m1, rand_source (emit (Ev_Step 5 128 0) (emit (Ev_fmt_Print ''.'') w\<lparr>rand_source := r1\<rparr>))) of
       (model', r') \<Rightarrow>
         (model', (emit (Ev_Step 5 128 0) (emit (Ev_fmt_Print ''.'') w\<lparr>rand_source := r1\<rparr>))\<lparr>rand_source := r', trace := trace (emit (Ev_Step 5 128 0) (emit (Ev_fmt_Print ''.'') w\<lparr>rand_source := r1\<rparr>)) @ loop_events (nat (100 - (i + 1)))\<rparr>))"
      using "1.IH"[OF True refl _ refl, of m1 r1] s1 e by simp
    have f: "(fit_step E ^^ nat (100 - i)) (model, rand_source w) = (fit_step E ^^ nat (100 - (i + 1))) (m1, r1)"
      unfolding n funpow_Suc_right by (simp add: fit_step_def s1)
    show ?thesis
      apply (subst step_loop.simps)
      apply (simp only: True if_True Let_def e s1 prod.case ih f)
      apply (simp add: emit_def n loop_events_def split: prod.splits)
      done
  next
    case False
    then show ?thesis
      by (subst step_loop.simps) (simp add: loop_events_def)
  qed
qed

text \<open>The two results of \<^verbatim>\<open>openImage\<close>, \<^verbatim>\<open>saveImage\<close> and \<^verbatim>\<open>crop\<close> that the later proofs need.\<close>

lemma openImage_Inr:
  assumes "openImage E w p = (w', Inr img)"
  shows "\<exists>bs. open_fault E (files w) p = None \<and> files w p = Some bs \<and> jpeg_Decode E bs = Inr img \<and>
          w' = w\<lparr>trace := trace w @ [Ev_os_Open p, Ev_jpeg_Decode bs]\<rparr>"
  using assms
  by (auto simp: openImage_def os_Open_def emit_def Let_def split: option.splits sum.splits)

lemma saveImage_None:
  assumes "saveImage E w img d f = (w', None)"
  shows "\<exists>bs. create_fault E (files w) (path_Join E d f) = None \<and> jpeg_Encode E img 85 = (bs, None) \<and>
          w' = w\<lparr>files := (files w)(path_Join E d f \<mapsto> bs),
                 trace := trace w @ [Ev_os_Create (path_Join E d f), Ev_jpeg_Encode (path_Join E d f) img 85]\<rparr>"
  using assms
  by (auto simp: saveImage_def os_Create_def emit_def Let_def split: option.splits sum.splits prod.splits)

lemma saveImage_ok:
  assumes "create_fault E (files w) (path_Join E d f) = None" "jpeg_Encode E img 85 = (bs, None)"
  shows "saveImage E w img d f =
          (w\<lparr>files := (files w)(path_Join E d f \<mapsto> bs),
             trace := trace w @ [Ev_os_Create (path_Join E d f), Ev_jpeg_Encode (path_Join E d f) img 85]\<rparr>, None)"
  using assms by (simp add: saveImage_def os_Create_def emit_def Let_def)

lemma saveImage_encode_fails:
  assumes "create_fault E (files w) (path_Join E d f) = None" "jpeg_Encode E img 85 = (bs, Some err)"
  shows "saveImage E w img d f =
          (w\<lparr>files := (files w)(path_Join E d f \<mapsto> bs),
             trace := trace w @ [Ev_os_Create (path_Join E d f), Ev_jpeg_Encode (path_Join E d f) img 85]\<rparr>,
           Some (errors_Wrap err ''Failed to encode the image as JPEG''))"
  using assms by (simp add: saveImage_def os_Create_def emit_def Let_def)

lemma crop_Inr:
  assumes "crop E w img a b = (w', Inr out)"
  shows "\<exists>rect si. smartcrop_Crop E img a b = Inr rect \<and> SubImager E img = Some si \<and> out = si rect \<and>
          w' = w\<lparr>trace := trace w @ [Ev_smartcrop_Crop img a b, Ev_SubImage img rect]\<rparr>"
  using assms
  by (auto simp: crop_def emit_def Let_def split: option.splits sum.splits)


text \<open>\<^verbatim>\<open>primitivePicture\<close> with its loop in closed form.\<close>

lemma primitivePicture_closed:
  "primitivePicture E w img0 =
    (let img = transform_Resize E img0 256 256 Linear;
         avg = primitive_AverageImageColor E img;
         bg = primitive_MakeColor E avg
     in case primitive_NewModel E img bg 1024 (runtime_NumCPU E) (clock w) of (model0, r0) \<Rightarrow>
        (case (fit_step E ^^ 100) (model0, r0) of (model, r) \<Rightarrow>
          (w\<lparr>rand_source := r,
             trace := trace w @
               [Ev_Resize img0 256 256 Linear, Ev_rand_Seed (clock w), Ev_AverageImageColor img,
                Ev_MakeColor avg, Ev_NewModel img bg 1024 (runtime_NumCPU E)] @
               loop_events 100 @ [Ev_Context_Image]\<rparr>,
           model_Context_Image E model)))"
  by (simp add: primitivePicture_def step_loop_closed emit_def Let_def split: prod.splits)

text \<open>The loop creates, opens and encodes nothing, and fits \<open>n\<close> shapes in \<open>2 n\<close> calls.\<close>

lemma created_loop_events: "concat (map created (loop_events n)) = []"
  by (induction n) (simp_all add: loop_events_def)

lemma opened_loop_events: "concat (map opened (loop_events n)) = []"
  by (induction n) (simp_all add: loop_events_def)

lemma encoded_loop_events: "concat (map encoded_quality (loop_events n)) = []"
  by (induction n) (simp_all add: loop_events_def)





text \<open>A run of \<^verbatim>\<open>main\<close> that returns went through every step, and this is what it did.\<close>

lemma main_Returned:
  assumes "main E w0 = (w', Returned)"
  obtains w1 img0 w2 cropped w3 w4 img w6 w8 w10 where
    "openImage E w0 ''original.jpg'' = (w1, Inr img0)"
    "crop E w1 img0 1000 1000 = (w2, Inr cropped)"
    "saveImage E w2 cropped ''.'' ''cropped.jpg'' = (w3, None)"
    "openImage E w3 ''cropped.jpg'' = (w4, Inr img)"
    "saveImage E (fst (saturate E w4 img)) (snd (saturate E w4 img)) ''.'' ''saturated.jpg'' = (w6, None)"
    "saveImage E (fst (multiply E w6 img)) (snd (multiply E w6 img)) ''.'' ''multiplied.jpg'' = (w8, None)"
    "saveImage E (fst (sharpen E w8 (snd (saturate E w4 img))))
       (snd (sharpen E w8 (snd (saturate E w4 img)))) ''.'' ''sharpened.jpg'' = (w10, None)"
    "saveImage E (fst (primitivePicture E w10 (snd (saturate E w4 img))))
       (snd (primitivePicture E w10 (snd (saturate E w4 img)))) ''.'' ''primitive.jpg'' = (w', None)"
  using assms unfolding main_def log_Fatal_def
  by (auto split: prod.splits sum.splits option.splits)

lemma main_Returned_run:
  assumes "main E w0 = (w', Returned)"
  shows "\<exists>original img0 rect si enc_c reread img enc_s enc_m enc_h enc_p.
      open_fault E (files w0) ''original.jpg'' = None
    \<and> files w0 ''original.jpg'' = Some original
    \<and> jpeg_Decode E original = Inr img0
    \<and> smartcrop_Crop E img0 1000 1000 = Inr rect
    \<and> SubImager E img0 = Some si
    \<and> jpeg_Encode E (si rect) 85 = (enc_c, None)
    \<and> ((files w0)(path_Join E ''.'' ''cropped.jpg'' \<mapsto> enc_c)) ''cropped.jpg'' = Some reread
    \<and> jpeg_Decode E reread = Inr img
    \<and> (let sat = adjust_Saturation E img 0.5;
            mult = blend_Multiply E img img;
            shrp = effect_UnsharpMask E sat 0.6 1.2;
            small = transform_Resize E sat 256 256 Linear;
            avg = primitive_AverageImageColor E small;
            bg = primitive_MakeColor E avg;
            fitted = (fit_step E ^^ 100) (primitive_NewModel E small bg 1024 (runtime_NumCPU E) (clock w0));
            pri = model_Context_Image E (fst fitted)
        in jpeg_Encode E sat 85 = (enc_s, None)
         \<and> jpeg_Encode E mult 85 = (enc_m, None)
         \<and> jpeg_Encode E shrp 85 = (enc_h, None)
         \<and> jpeg_Encode E pri 85 = (enc_p, None)
         \<and> w' = w0\<lparr>files := (files w0)
                    (path_Join E ''.'' ''cropped.jpg'' \<mapsto> enc_c,
                     path_Join E ''.'' ''saturated.jpg'' \<mapsto> enc_s,
                     path_Join E ''.'' ''multiplied.jpg'' \<mapsto> enc_m,
                     path_Join E ''.'' ''sharpened.jpg'' \<mapsto> enc_h,
                     path_Join E ''.'' ''primitive.jpg'' \<mapsto> enc_p),
                 rand_source := snd fitted,
                 trace := trace w0 @
                   [Ev_os_Open ''original.jpg'', Ev_jpeg_Decode original,
                    Ev_smartcrop_Crop img0 1000 1000, Ev_SubImage img0 rect,
                    Ev_os_Create (path_Join E ''.'' ''cropped.jpg''),
                    Ev_jpeg_Encode (path_Join E ''.'' ''cropped.jpg'') (si rect) 85,
                    Ev_os_Open ''cropped.jpg'', Ev_jpeg_Decode reread,
                    Ev_Saturation img 0.5,
                    Ev_os_Create (path_Join E ''.'' ''saturated.jpg''),
                    Ev_jpeg_Encode (path_Join E ''.'' ''saturated.jpg'') sat 85,
                    Ev_Multiply img img,
                    Ev_os_Create (path_Join E ''.'' ''multiplied.jpg''),
                    Ev_jpeg_Encode (path_Join E ''.'' ''multiplied.jpg'') mult 85,
                    Ev_UnsharpMask sat 0.6 1.2,
                    Ev_os_Create (path_Join E ''.'' ''sharpened.jpg''),
                    Ev_jpeg_Encode (path_Join E ''.'' ''sharpened.jpg'') shrp 85,
                    Ev_Resize sat 256 256 Linear, Ev_rand_Seed (clock w0),
                    Ev_AverageImageColor small, Ev_MakeColor avg,
                    Ev_NewModel small bg 1024 (runtime_NumCPU E)] @
                   loop_events 100 @
                   [Ev_Context_Image,
                    Ev_os_Create (path_Join E ''.'' ''primitive.jpg''),
                    Ev_jpeg_Encode (path_Join E ''.'' ''primitive.jpg'') pri 85]\<rparr>)"
proof -
  from assms obtain w1 img0 w2 cropped w3 w4 img w6 w8 w10 where
    c1: "openImage E w0 ''original.jpg'' = (w1, Inr img0)" and
    c2: "crop E w1 img0 1000 1000 = (w2, Inr cropped)" and
    c3: "saveImage E w2 cropped ''.'' ''cropped.jpg'' = (w3, None)" and
    c4: "openImage E w3 ''cropped.jpg'' = (w4, Inr img)" and
    c5: "saveImage E (fst (saturate E w4 img)) (snd (saturate E w4 img)) ''.'' ''saturated.jpg'' = (w6, None)" and
    c6: "saveImage E (fst (multiply E w6 img)) (snd (multiply E w6 img)) ''.'' ''multiplied.jpg'' = (w8, None)" and
    c7: "saveImage E (fst (sharpen E w8 (snd (saturate E w4 img))))
       (snd (sharpen E w8 (snd (saturate E w4 img)))) ''.'' ''sharpened.jpg'' = (w10, None)" and
    c8: "saveImage E (fst (primitivePicture E w10 (snd (saturate E w4 img))))
       (snd (primitivePicture E w10 (snd (saturate E w4 img)))) ''.'' ''primitive.jpg'' = (w', None)"
    by (rule main_Returned)
  from openImage_Inr [OF c1] obtain original where
    o1: "open_fault E (files w0) ''original.jpg'' = None" "files w0 ''original.jpg'' = Some original"
        "jpeg_Decode E original = Inr img0" and
    w1: "w1 = w0\<lparr>trace := trace w0 @ [Ev_os_Open ''original.jpg'', Ev_jpeg_Decode original]\<rparr>"
    by blast
  from crop_Inr [OF c2] obtain rect si where
    o2: "smartcrop_Crop E img0 1000 1000 = Inr rect" "SubImager E img0 = Some si" "cropped = si rect" and
    w2: "w2 = w1\<lparr>trace := trace w1 @ [Ev_smartcrop_Crop img0 1000 1000, Ev_SubImage img0 rect]\<rparr>"
    by blast
  from saveImage_None [OF c3] obtain enc_c where
    o3: "jpeg_Encode E cropped 85 = (enc_c, None)" and
    w3: "w3 = w2\<lparr>files := (files w2)(path_Join E ''.'' ''cropped.jpg'' \<mapsto> enc_c),
                 trace := trace w2 @ [Ev_os_Create (path_Join E ''.'' ''cropped.jpg''),
                   Ev_jpeg_Encode (path_Join E ''.'' ''cropped.jpg'') cropped 85]\<rparr>"
    by blast
  from openImage_Inr [OF c4] obtain reread where
    o4: "files w3 ''cropped.jpg'' = Some reread" "jpeg_Decode E reread = Inr img" and
    w4: "w4 = w3\<lparr>trace := trace w3 @ [Ev_os_Open ''cropped.jpg'', Ev_jpeg_Decode reread]\<rparr>"
    by blast
  let ?sat = "adjust_Saturation E img 0.5"
  let ?mult = "blend_Multiply E img img"
  let ?shrp = "effect_UnsharpMask E ?sat 0.6 1.2"
  have s5: "saturate E w4 img = (w4\<lparr>trace := trace w4 @ [Ev_Saturation img 0.5]\<rparr>, ?sat)"
    by (simp add: saturate_def emit_def)
  from saveImage_None [OF c5] obtain enc_s where
    o5: "jpeg_Encode E ?sat 85 = (enc_s, None)" and
    w6: "w6 = (w4\<lparr>trace := trace w4 @ [Ev_Saturation img 0.5]\<rparr>)
              \<lparr>files := (files w4)(path_Join E ''.'' ''saturated.jpg'' \<mapsto> enc_s),
               trace := (trace w4 @ [Ev_Saturation img 0.5]) @
                 [Ev_os_Create (path_Join E ''.'' ''saturated.jpg''),
                  Ev_jpeg_Encode (path_Join E ''.'' ''saturated.jpg'') ?sat 85]\<rparr>"
    unfolding s5 by auto
  have s6: "multiply E w6 img = (w6\<lparr>trace := trace w6 @ [Ev_Multiply img img]\<rparr>, ?mult)"
    by (simp add: multiply_def emit_def)
  from saveImage_None [OF c6] obtain enc_m where
    o6: "jpeg_Encode E ?mult 85 = (enc_m, None)" and
    w8: "w8 = (w6\<lparr>trace := trace w6 @ [Ev_Multiply img img]\<rparr>)
              \<lparr>files := (files w6)(path_Join E ''.'' ''multiplied.jpg'' \<mapsto> enc_m),
               trace := (trace w6 @ [Ev_Multiply img img]) @
                 [Ev_os_Create (path_Join E ''.'' ''multiplied.jpg''),
                  Ev_jpeg_Encode (path_Join E ''.'' ''multiplied.jpg'') ?mult 85]\<rparr>"
    unfolding s6 by auto
  have s7: "sharpen E w8 ?sat = (w8\<lparr>trace := trace w8 @ [Ev_UnsharpMask ?sat 0.6 1.2]\<rparr>, ?shrp)"
    by (simp add: sharpen_def emit_def)
  from saveImage_None [OF c7] obtain enc_h where
    o7: "jpeg_Encode E ?shrp 85 = (enc_h, None)" and
    w10: "w10 = (w8\<lparr>trace := trace w8 @ [Ev_UnsharpMask ?sat 0.6 1.2]\<rparr>)
              \<lparr>files := (files w8)(path_Join E ''.'' ''sharpened.jpg'' \<mapsto> enc_h),
               trace := (trace w8 @ [Ev_UnsharpMask ?sat 0.6 1.2]) @
                 [Ev_os_Create (path_Join E ''.'' ''sharpened.jpg''),
                  Ev_jpeg_Encode (path_Join E ''.'' ''sharpened.jpg'') ?shrp 85]\<rparr>"
    unfolding s5 s7 snd_conv fst_conv by auto
  let ?small = "transform_Resize E ?sat 256 256 Linear"
  let ?avg = "primitive_AverageImageColor E ?small"
  let ?bg = "primitive_MakeColor E ?avg"
  let ?fitted = "(fit_step E ^^ 100) (primitive_NewModel E ?small ?bg 1024 (runtime_NumCPU E) (clock w0))"
  let ?pri = "model_Context_Image E (fst ?fitted)"
  have ck: "clock w10 = clock w0"
    by (simp add: w10 w8 w6 w4 w3 w2 w1)
  have s8: "primitivePicture E w10 ?sat =
      (w10\<lparr>rand_source := snd ?fitted,
           trace := trace w10 @
             [Ev_Resize ?sat 256 256 Linear, Ev_rand_Seed (clock w0), Ev_AverageImageColor ?small,
              Ev_MakeColor ?avg, Ev_NewModel ?small ?bg 1024 (runtime_NumCPU E)] @
             loop_events 100 @ [Ev_Context_Image]\<rparr>, ?pri)"
    by (simp add: primitivePicture_closed ck Let_def split: prod.splits)
  from saveImage_None [OF c8] obtain enc_p where
    o8: "jpeg_Encode E ?pri 85 = (enc_p, None)" and
    w': "w' = (fst (primitivePicture E w10 ?sat))
              \<lparr>files := (files w10)(path_Join E ''.'' ''primitive.jpg'' \<mapsto> enc_p),
               trace := trace (fst (primitivePicture E w10 ?sat)) @
                 [Ev_os_Create (path_Join E ''.'' ''primitive.jpg''),
                  Ev_jpeg_Encode (path_Join E ''.'' ''primitive.jpg'') ?pri 85]\<rparr>"
    unfolding s5 snd_conv unfolding s8 snd_conv fst_conv by auto
  have r: "((files w0)(path_Join E ''.'' ''cropped.jpg'' \<mapsto> enc_c)) ''cropped.jpg'' = Some reread"
    using o4(1) by (simp add: w3 w2 w1)
  have final: "w' = w0\<lparr>files := (files w0)
                    (path_Join E ''.'' ''cropped.jpg'' \<mapsto> enc_c,
                     path_Join E ''.'' ''saturated.jpg'' \<mapsto> enc_s,
                     path_Join E ''.'' ''multiplied.jpg'' \<mapsto> enc_m,
                     path_Join E ''.'' ''sharpened.jpg'' \<mapsto> enc_h,
                     path_Join E ''.'' ''primitive.jpg'' \<mapsto> enc_p),
                 rand_source := snd ?fitted,
                 trace := trace w0 @
                   [Ev_os_Open ''original.jpg'', Ev_jpeg_Decode original,
                    Ev_smartcrop_Crop img0 1000 1000, Ev_SubImage img0 rect,
                    Ev_os_Create (path_Join E ''.'' ''cropped.jpg''),
                    Ev_jpeg_Encode (path_Join E ''.'' ''cropped.jpg'') (si rect) 85,
                    Ev_os_Open ''cropped.jpg'', Ev_jpeg_Decode reread,
                    Ev_Saturation img 0.5,
                    Ev_os_Create (path_Join E ''.'' ''saturated.jpg''),
                    Ev_jpeg_Encode (path_Join E ''.'' ''saturated.jpg'') ?sat 85,
                    Ev_Multiply img img,
                    Ev_os_Create (path_Join E ''.'' ''multiplied.jpg''),
                    Ev_jpeg_Encode (path_Join E ''.'' ''multiplied.jpg'') ?mult 85,
                    Ev_UnsharpMask ?sat 0.6 1.2,
                    Ev_os_Create (path_Join E ''.'' ''sharpened.jpg''),
                    Ev_jpeg_Encode (path_Join E ''.'' ''sharpened.jpg'') ?shrp 85,
                    Ev_Resize ?sat 256 256 Linear, Ev_rand_Seed (clock w0),
                    Ev_AverageImageColor ?small, Ev_MakeColor ?avg,
                    Ev_NewModel ?small ?bg 1024 (runtime_NumCPU E)] @
                   loop_events 100 @
                   [Ev_Context_Image,
                    Ev_os_Create (path_Join E ''.'' ''primitive.jpg''),
                    Ev_jpeg_Encode (path_Join E ''.'' ''primitive.jpg'') ?pri 85]\<rparr>"
    unfolding w' s8 fst_conv
    by (simp add: w10 w8 w6 w4 w3 w2 w1 o2(3))
  from o1 o2 o3 r o4(2) o5 o6 o7 o8 final show ?thesis
    unfolding Let_def o2(3) by blast
qed

text \<open>The reference environment, field by field, and its runs.\<close>

lemma sample_env_sel:
  "path_Join sample_env = (\<lambda>d f. if d = ''.'' then f else d @ ''/'' @ f)"
  "open_fault sample_env = (\<lambda>fs p. None)"
  "create_fault sample_env = (\<lambda>fs p. None)"
  "jpeg_Decode sample_env = raster_Decode"
  "jpeg_Encode sample_env = raster_Encode"
  "Bounds sample_env = raster_Bounds"
  "At sample_env = raster_At"
  "SubImager sample_env = raster_SubImager"
  "smartcrop_Crop sample_env = top_left_window"
  "adjust_Saturation sample_env = (\<lambda>img amount. renumber 10 img)"
  "blend_Multiply sample_env = (\<lambda>a b. renumber 20 a)"
  "effect_UnsharpMask sample_env = (\<lambda>img radius amount. renumber 30 img)"
  "transform_Resize sample_env =
     (\<lambda>img width height f. Raster (raster_buffer img) \<lparr>MinX = 0, MinY = 0, MaxX = width, MaxY = height\<rparr>)"
  "primitive_AverageImageColor sample_env = (\<lambda>img. raster_At img 0 0)"
  "primitive_MakeColor sample_env = (\<lambda>c. c)"
  "primitive_NewModel sample_env = (\<lambda>img bg size workers r. (0, r + 1))"
  "model_Step sample_env = (\<lambda>model shape alpha repeat r. (Suc model, r + 1))"
  "model_Context_Image sample_env =
     (\<lambda>model. Raster (Some model) \<lparr>MinX = 0, MinY = 0, MaxX = 1024, MaxY = 1024\<rparr>)"
  "runtime_NumCPU sample_env = 4"
  by (simp_all add: sample_env_def)

lemma sample_fit: "(fit_step sample_env ^^ n) (m, r) = (m + n, r + int n)"
  by (induction n arbitrary: m r) (simp_all add: funpow_swap1 fit_step_def sample_env_def)

lemma fit_step_variants:
  "fit_step (sample_env\<lparr>create_fault := f\<rparr>) = fit_step sample_env"
  "fit_step (sample_env\<lparr>open_fault := g\<rparr>) = fit_step sample_env"
  "fit_step (sample_env\<lparr>smartcrop_Crop := d\<rparr>) = fit_step sample_env"
  by (simp_all add: fit_step_def)

lemmas sample_step_simps =
  openImage_def os_Open_def saveImage_def os_Create_def crop_def saturate_def
  multiply_def sharpen_def primitivePicture_closed fit_step_variants sample_fit emit_def Let_def
  refusing_create_def refusing_open_def failing_detector_def
  sample_env_sel sample_world_def raster_SubImage_def top_left_window_def
  rect_Intersect_def rect_Empty_def ZR_def point_In_def
  created_loop_events opened_loop_events encoded_loop_events

lemma sample_returns: "snd (main sample_env sample_world) = Returned"
  by (simp add: main_def log_Fatal_def sample_step_simps)


section \<open>The orchestrator\<close>

text \<open>
  Claim C1. A run of \<^verbatim>\<open>main\<close> that returns has made exactly this sequence of calls, with
  this data: it opens and decodes \<^verbatim>\<open>original.jpg\<close>; asks the detector for a 1000 by
  1000 region and takes the sub-image; saves it as \<^verbatim>\<open>cropped.jpg\<close>; opens and decodes
  \<^verbatim>\<open>cropped.jpg\<close> again (when the joined path is the path it opens, the bytes it
  decodes are the encoder's output for the sub-image: the image is decoded anew from the
  file, it is not the sub-image in memory); saturates the reloaded image and saves the
  result; multiplies the reloaded image, not the saturated one, with itself and saves the
  result; sharpens the saturated image and saves the result; approximates the saturated
  image with primitives and saves the result.
\<close>

theorem main_sequence:
  assumes "main E w0 = (w', Returned)"
  shows "\<exists>original img0 rect si reread img.
      files w0 ''original.jpg'' = Some original
    \<and> jpeg_Decode E original = Inr img0
    \<and> smartcrop_Crop E img0 1000 1000 = Inr rect
    \<and> SubImager E img0 = Some si
    \<and> jpeg_Decode E reread = Inr img
    \<and> (path_Join E ''.'' ''cropped.jpg'' = ''cropped.jpg'' \<longrightarrow>
          jpeg_Encode E (si rect) 85 = (reread, None))
    \<and> (let cropped = si rect;
            sat = adjust_Saturation E img 0.5;
            mult = blend_Multiply E img img;
            shrp = effect_UnsharpMask E sat 0.6 1.2;
            small = transform_Resize E sat 256 256 Linear;
            avg = primitive_AverageImageColor E small;
            bg = primitive_MakeColor E avg;
            fitted = (fit_step E ^^ 100) (primitive_NewModel E small bg 1024 (runtime_NumCPU E) (clock w0));
            pri = model_Context_Image E (fst fitted)
        in trace w' = trace w0 @
             [Ev_os_Open ''original.jpg'', Ev_jpeg_Decode original,
              Ev_smartcrop_Crop img0 1000 1000, Ev_SubImage img0 rect,
              Ev_os_Create (path_Join E ''.'' ''cropped.jpg''),
              Ev_jpeg_Encode (path_Join E ''.'' ''cropped.jpg'') cropped 85,
              Ev_os_Open ''cropped.jpg'', Ev_jpeg_Decode reread,
              Ev_Saturation img 0.5,
              Ev_os_Create (path_Join E ''.'' ''saturated.jpg''),
              Ev_jpeg_Encode (path_Join E ''.'' ''saturated.jpg'') sat 85,
              Ev_Multiply img img,
              Ev_os_Create (path_Join E ''.'' ''multiplied.jpg''),
              Ev_jpeg_Encode (path_Join E ''.'' ''multiplied.jpg'') mult 85,
              Ev_UnsharpMask sat 0.6 1.2,
              Ev_os_Create (path_Join E ''.'' ''sharpened.jpg''),
              Ev_jpeg_Encode (path_Join E ''.'' ''sharpened.jpg'') shrp 85,
              Ev_Resize sat 256 256 Linear, Ev_rand_Seed (clock w0),
              Ev_AverageImageColor small, Ev_MakeColor avg,
              Ev_NewModel small bg 1024 (runtime_NumCPU E)] @
             loop_events 100 @
             [Ev_Context_Image,
              Ev_os_Create (path_Join E ''.'' ''primitive.jpg''),
              Ev_jpeg_Encode (path_Join E ''.'' ''primitive.jpg'') pri 85])"
proof -
  from main_Returned_run [OF assms] obtain original img0 rect si enc_c reread img
    and enc_s enc_m enc_h enc_p :: "byte list"
    where r: "files w0 ''original.jpg'' = Some original"
      "jpeg_Decode E original = Inr img0"
      "smartcrop_Crop E img0 1000 1000 = Inr rect"
      "SubImager E img0 = Some si"
      "jpeg_Encode E (si rect) 85 = (enc_c, None)"
      "((files w0)(path_Join E ''.'' ''cropped.jpg'' \<mapsto> enc_c)) ''cropped.jpg'' = Some reread"
      "jpeg_Decode E reread = Inr img"
    and t: "trace w' = trace w0 @
             [Ev_os_Open ''original.jpg'', Ev_jpeg_Decode original,
              Ev_smartcrop_Crop img0 1000 1000, Ev_SubImage img0 rect,
              Ev_os_Create (path_Join E ''.'' ''cropped.jpg''),
              Ev_jpeg_Encode (path_Join E ''.'' ''cropped.jpg'') (si rect) 85,
              Ev_os_Open ''cropped.jpg'', Ev_jpeg_Decode reread,
              Ev_Saturation img 0.5,
              Ev_os_Create (path_Join E ''.'' ''saturated.jpg''),
              Ev_jpeg_Encode (path_Join E ''.'' ''saturated.jpg'') (adjust_Saturation E img 0.5) 85,
              Ev_Multiply img img,
              Ev_os_Create (path_Join E ''.'' ''multiplied.jpg''),
              Ev_jpeg_Encode (path_Join E ''.'' ''multiplied.jpg'') (blend_Multiply E img img) 85,
              Ev_UnsharpMask (adjust_Saturation E img 0.5) 0.6 1.2,
              Ev_os_Create (path_Join E ''.'' ''sharpened.jpg''),
              Ev_jpeg_Encode (path_Join E ''.'' ''sharpened.jpg'')
                (effect_UnsharpMask E (adjust_Saturation E img 0.5) 0.6 1.2) 85,
              Ev_Resize (adjust_Saturation E img 0.5) 256 256 Linear, Ev_rand_Seed (clock w0),
              Ev_AverageImageColor (transform_Resize E (adjust_Saturation E img 0.5) 256 256 Linear),
              Ev_MakeColor (primitive_AverageImageColor E
                (transform_Resize E (adjust_Saturation E img 0.5) 256 256 Linear)),
              Ev_NewModel (transform_Resize E (adjust_Saturation E img 0.5) 256 256 Linear)
                (primitive_MakeColor E (primitive_AverageImageColor E
                  (transform_Resize E (adjust_Saturation E img 0.5) 256 256 Linear)))
                1024 (runtime_NumCPU E)] @
             loop_events 100 @
             [Ev_Context_Image,
              Ev_os_Create (path_Join E ''.'' ''primitive.jpg''),
              Ev_jpeg_Encode (path_Join E ''.'' ''primitive.jpg'')
                (model_Context_Image E (fst ((fit_step E ^^ 100)
                  (primitive_NewModel E (transform_Resize E (adjust_Saturation E img 0.5) 256 256 Linear)
                    (primitive_MakeColor E (primitive_AverageImageColor E
                      (transform_Resize E (adjust_Saturation E img 0.5) 256 256 Linear)))
                    1024 (runtime_NumCPU E) (clock w0))))) 85]"
    unfolding Let_def by auto
  have j: "path_Join E ''.'' ''cropped.jpg'' = ''cropped.jpg'' \<longrightarrow>
          jpeg_Encode E (si rect) 85 = (reread, None)"
    using r(5,6) by auto
  from r(1-4,7) j t show ?thesis
    unfolding Let_def by blast
qed

text \<open>
  In the reference environment the image decoded from \<^verbatim>\<open>original.jpg\<close> lives in buffer
  101 and the one reloaded from \<^verbatim>\<open>cropped.jpg\<close> in buffer 201: saturation and
  multiplication work on 201, sharpening and the primitives on the saturated 211.
\<close>

theorem main_sequence_witness:
  "main sample_env sample_world = (fst (main sample_env sample_world), Returned)
 \<and> trace (fst (main sample_env sample_world)) =
     [Ev_os_Open ''original.jpg'', Ev_jpeg_Decode [0xFF, 0xD8, 0x01],
      Ev_smartcrop_Crop (Raster (Some 101) \<lparr>MinX = 0, MinY = 0, MaxX = 4, MaxY = 3\<rparr>) 1000 1000,
      Ev_SubImage (Raster (Some 101) \<lparr>MinX = 0, MinY = 0, MaxX = 4, MaxY = 3\<rparr>)
        \<lparr>MinX = 0, MinY = 0, MaxX = 1000, MaxY = 1000\<rparr>,
      Ev_os_Create ''cropped.jpg'',
      Ev_jpeg_Encode ''cropped.jpg'' (Raster (Some 101) \<lparr>MinX = 0, MinY = 0, MaxX = 4, MaxY = 3\<rparr>) 85,
      Ev_os_Open ''cropped.jpg'', Ev_jpeg_Decode [0xFF, 0xD8, 101, 85],
      Ev_Saturation (Raster (Some 201) \<lparr>MinX = 0, MinY = 0, MaxX = 4, MaxY = 3\<rparr>) 0.5,
      Ev_os_Create ''saturated.jpg'',
      Ev_jpeg_Encode ''saturated.jpg'' (Raster (Some 211) \<lparr>MinX = 0, MinY = 0, MaxX = 4, MaxY = 3\<rparr>) 85,
      Ev_Multiply (Raster (Some 201) \<lparr>MinX = 0, MinY = 0, MaxX = 4, MaxY = 3\<rparr>)
        (Raster (Some 201) \<lparr>MinX = 0, MinY = 0, MaxX = 4, MaxY = 3\<rparr>),
      Ev_os_Create ''multiplied.jpg'',
      Ev_jpeg_Encode ''multiplied.jpg'' (Raster (Some 221) \<lparr>MinX = 0, MinY = 0, MaxX = 4, MaxY = 3\<rparr>) 85,
      Ev_UnsharpMask (Raster (Some 211) \<lparr>MinX = 0, MinY = 0, MaxX = 4, MaxY = 3\<rparr>) 0.6 1.2,
      Ev_os_Create ''sharpened.jpg'',
      Ev_jpeg_Encode ''sharpened.jpg'' (Raster (Some 241) \<lparr>MinX = 0, MinY = 0, MaxX = 4, MaxY = 3\<rparr>) 85,
      Ev_Resize (Raster (Some 211) \<lparr>MinX = 0, MinY = 0, MaxX = 4, MaxY = 3\<rparr>) 256 256 Linear,
      Ev_rand_Seed 1482500000000000000,
      Ev_AverageImageColor (Raster (Some 211) \<lparr>MinX = 0, MinY = 0, MaxX = 256, MaxY = 256\<rparr>),
      Ev_MakeColor (Colour 211 0 0 255),
      Ev_NewModel (Raster (Some 211) \<lparr>MinX = 0, MinY = 0, MaxX = 256, MaxY = 256\<rparr>)
        (Colour 211 0 0 255) 1024 4] @
     loop_events 100 @
     [Ev_Context_Image, Ev_os_Create ''primitive.jpg'',
      Ev_jpeg_Encode ''primitive.jpg'' (Raster (Some 100) \<lparr>MinX = 0, MinY = 0, MaxX = 1024, MaxY = 1024\<rparr>) 85]"
proof -
  have h: "main sample_env sample_world = (fst (main sample_env sample_world), Returned)"
    using sample_returns by (simp add: prod_eq_iff)
  have w: "files sample_world ''original.jpg'' = Some [0xFF, 0xD8, 0x01]"
    "trace sample_world = []" "clock sample_world = 1482500000000000000"
    by (simp_all add: sample_world_def)
  from main_sequence [OF h] h show ?thesis
    unfolding Let_def sample_env_sel w
    by (auto simp: sample_fit raster_SubImage_def top_left_window_def
          rect_Intersect_def rect_Empty_def ZR_def point_In_def)
qed

text \<open>
  Claim C3. \<^verbatim>\<open>main\<close> has eight steps that can return an error: opening the original,
  cropping, saving the crop, opening the crop again, and saving the saturated, the
  multiplied, the sharpened and the primitive image. Whichever of them is the first to
  return an error, the steps before it having succeeded, \<^verbatim>\<open>main\<close> logs exactly that
  error with \<^verbatim>\<open>log.Fatal\<close> and the process exits with status 1. The world at exit is
  the world the failing step left, with the log entry added: no later step has run,
  nothing was retried, and the files are as the earlier steps and the failing step left
  them, none removed and none restored.
\<close>

theorem main_fail_fast:
  "(openImage E w0 ''original.jpg'' = (w1, Inl err) \<longrightarrow>
      main E w0 = (emit (Ev_log_Fatal err) w1, Exit 1))
 \<and> (openImage E w0 ''original.jpg'' = (w1, Inr img0) \<longrightarrow>
    crop E w1 img0 1000 1000 = (w2, Inl err) \<longrightarrow>
      main E w0 = (emit (Ev_log_Fatal err) w2, Exit 1))
 \<and> (openImage E w0 ''original.jpg'' = (w1, Inr img0) \<longrightarrow>
    crop E w1 img0 1000 1000 = (w2, Inr cropped) \<longrightarrow>
    saveImage E w2 cropped ''.'' ''cropped.jpg'' = (w3, Some err) \<longrightarrow>
      main E w0 = (emit (Ev_log_Fatal err) w3, Exit 1))
 \<and> (openImage E w0 ''original.jpg'' = (w1, Inr img0) \<longrightarrow>
    crop E w1 img0 1000 1000 = (w2, Inr cropped) \<longrightarrow>
    saveImage E w2 cropped ''.'' ''cropped.jpg'' = (w3, None) \<longrightarrow>
    openImage E w3 ''cropped.jpg'' = (w4, Inl err) \<longrightarrow>
      main E w0 = (emit (Ev_log_Fatal err) w4, Exit 1))
 \<and> (openImage E w0 ''original.jpg'' = (w1, Inr img0) \<longrightarrow>
    crop E w1 img0 1000 1000 = (w2, Inr cropped) \<longrightarrow>
    saveImage E w2 cropped ''.'' ''cropped.jpg'' = (w3, None) \<longrightarrow>
    openImage E w3 ''cropped.jpg'' = (w4, Inr img) \<longrightarrow>
    saturate E w4 img = (w5, sat) \<longrightarrow>
    saveImage E w5 sat ''.'' ''saturated.jpg'' = (w6, Some err) \<longrightarrow>
      main E w0 = (emit (Ev_log_Fatal err) w6, Exit 1))
 \<and> (openImage E w0 ''original.jpg'' = (w1, Inr img0) \<longrightarrow>
    crop E w1 img0 1000 1000 = (w2, Inr cropped) \<longrightarrow>
    saveImage E w2 cropped ''.'' ''cropped.jpg'' = (w3, None) \<longrightarrow>
    openImage E w3 ''cropped.jpg'' = (w4, Inr img) \<longrightarrow>
    saturate E w4 img = (w5, sat) \<longrightarrow>
    saveImage E w5 sat ''.'' ''saturated.jpg'' = (w6, None) \<longrightarrow>
    multiply E w6 img = (w7, mult) \<longrightarrow>
    saveImage E w7 mult ''.'' ''multiplied.jpg'' = (w8, Some err) \<longrightarrow>
      main E w0 = (emit (Ev_log_Fatal err) w8, Exit 1))
 \<and> (openImage E w0 ''original.jpg'' = (w1, Inr img0) \<longrightarrow>
    crop E w1 img0 1000 1000 = (w2, Inr cropped) \<longrightarrow>
    saveImage E w2 cropped ''.'' ''cropped.jpg'' = (w3, None) \<longrightarrow>
    openImage E w3 ''cropped.jpg'' = (w4, Inr img) \<longrightarrow>
    saturate E w4 img = (w5, sat) \<longrightarrow>
    saveImage E w5 sat ''.'' ''saturated.jpg'' = (w6, None) \<longrightarrow>
    multiply E w6 img = (w7, mult) \<longrightarrow>
    saveImage E w7 mult ''.'' ''multiplied.jpg'' = (w8, None) \<longrightarrow>
    sharpen E w8 sat = (w9, shrp) \<longrightarrow>
    saveImage E w9 shrp ''.'' ''sharpened.jpg'' = (w10, Some err) \<longrightarrow>
      main E w0 = (emit (Ev_log_Fatal err) w10, Exit 1))
 \<and> (openImage E w0 ''original.jpg'' = (w1, Inr img0) \<longrightarrow>
    crop E w1 img0 1000 1000 = (w2, Inr cropped) \<longrightarrow>
    saveImage E w2 cropped ''.'' ''cropped.jpg'' = (w3, None) \<longrightarrow>
    openImage E w3 ''cropped.jpg'' = (w4, Inr img) \<longrightarrow>
    saturate E w4 img = (w5, sat) \<longrightarrow>
    saveImage E w5 sat ''.'' ''saturated.jpg'' = (w6, None) \<longrightarrow>
    multiply E w6 img = (w7, mult) \<longrightarrow>
    saveImage E w7 mult ''.'' ''multiplied.jpg'' = (w8, None) \<longrightarrow>
    sharpen E w8 sat = (w9, shrp) \<longrightarrow>
    saveImage E w9 shrp ''.'' ''sharpened.jpg'' = (w10, None) \<longrightarrow>
    primitivePicture E w10 sat = (w11, pri) \<longrightarrow>
    saveImage E w11 pri ''.'' ''primitive.jpg'' = (w12, Some err) \<longrightarrow>
      main E w0 = (emit (Ev_log_Fatal err) w12, Exit 1))"
  by (simp add: main_def log_Fatal_def)

text \<open>
  The eight failures in the reference environment: the original is missing; the detector
  fails; the system refuses to create \<^verbatim>\<open>cropped.jpg\<close>; it refuses to open it again; it
  refuses to create one of the four later files. Each run exits with status 1, its last
  call is the log of the wrapped error, no file is created after the failure, and the
  files written before it are still there.
\<close>

theorem main_fail_fast_witness:
  "snd (main sample_env (sample_world\<lparr>files := Map.empty\<rparr>)) = Exit 1
 \<and> last (trace (fst (main sample_env (sample_world\<lparr>files := Map.empty\<rparr>)))) =
     Ev_log_Fatal (errors_Wrap (Library ''open original.jpg: no such file or directory'') ''Cannot open original.jpg'')
 \<and> concat (map created (trace (fst (main sample_env (sample_world\<lparr>files := Map.empty\<rparr>))))) =
     []
 \<and> map (files (fst (main sample_env (sample_world\<lparr>files := Map.empty\<rparr>))))
       [''cropped.jpg'', ''saturated.jpg'', ''multiplied.jpg'', ''sharpened.jpg'', ''primitive.jpg'']
     = [None, None, None, None, None]
 \<and> snd (main failing_detector sample_world) = Exit 1
 \<and> last (trace (fst (main failing_detector sample_world))) =
     Ev_log_Fatal (errors_Wrap (Library ''no crop found'') ''Smartcrop failed'')
 \<and> concat (map created (trace (fst (main failing_detector sample_world)))) =
     []
 \<and> map (files (fst (main failing_detector sample_world)))
       [''cropped.jpg'', ''saturated.jpg'', ''multiplied.jpg'', ''sharpened.jpg'', ''primitive.jpg'']
     = [None, None, None, None, None]
 \<and> snd (main (refusing_create ''cropped.jpg'') sample_world) = Exit 1
 \<and> last (trace (fst (main (refusing_create ''cropped.jpg'') sample_world))) =
     Ev_log_Fatal (errors_Wrap (Library ''permission denied'') ''Cannot create file: cropped.jpg'')
 \<and> concat (map created (trace (fst (main (refusing_create ''cropped.jpg'') sample_world)))) =
     [''cropped.jpg'']
 \<and> map (files (fst (main (refusing_create ''cropped.jpg'') sample_world)))
       [''cropped.jpg'', ''saturated.jpg'', ''multiplied.jpg'', ''sharpened.jpg'', ''primitive.jpg'']
     = [None, None, None, None, None]
 \<and> snd (main (refusing_open ''cropped.jpg'') sample_world) = Exit 1
 \<and> last (trace (fst (main (refusing_open ''cropped.jpg'') sample_world))) =
     Ev_log_Fatal (errors_Wrap (Library ''permission denied'') ''Cannot open cropped.jpg'')
 \<and> concat (map created (trace (fst (main (refusing_open ''cropped.jpg'') sample_world)))) =
     [''cropped.jpg'']
 \<and> map (files (fst (main (refusing_open ''cropped.jpg'') sample_world)))
       [''cropped.jpg'', ''saturated.jpg'', ''multiplied.jpg'', ''sharpened.jpg'', ''primitive.jpg'']
     = [Some [0xFF, 0xD8, 101, 85], None, None, None, None]
 \<and> snd (main (refusing_create ''saturated.jpg'') sample_world) = Exit 1
 \<and> last (trace (fst (main (refusing_create ''saturated.jpg'') sample_world))) =
     Ev_log_Fatal (errors_Wrap (Library ''permission denied'') ''Cannot create file: saturated.jpg'')
 \<and> concat (map created (trace (fst (main (refusing_create ''saturated.jpg'') sample_world)))) =
     [''cropped.jpg'', ''saturated.jpg'']
 \<and> map (files (fst (main (refusing_create ''saturated.jpg'') sample_world)))
       [''cropped.jpg'', ''saturated.jpg'', ''multiplied.jpg'', ''sharpened.jpg'', ''primitive.jpg'']
     = [Some [0xFF, 0xD8, 101, 85], None, None, None, None]
 \<and> snd (main (refusing_create ''multiplied.jpg'') sample_world) = Exit 1
 \<and> last (trace (fst (main (refusing_create ''multiplied.jpg'') sample_world))) =
     Ev_log_Fatal (errors_Wrap (Library ''permission denied'') ''Cannot create file: multiplied.jpg'')
 \<and> concat (map created (trace (fst (main (refusing_create ''multiplied.jpg'') sample_world)))) =
     [''cropped.jpg'', ''saturated.jpg'', ''multiplied.jpg'']
 \<and> map (files (fst (main (refusing_create ''multiplied.jpg'') sample_world)))
       [''cropped.jpg'', ''saturated.jpg'', ''multiplied.jpg'', ''sharpened.jpg'', ''primitive.jpg'']
     = [Some [0xFF, 0xD8, 101, 85], Some [0xFF, 0xD8, 211, 85], None, None, None]
 \<and> snd (main (refusing_create ''sharpened.jpg'') sample_world) = Exit 1
 \<and> last (trace (fst (main (refusing_create ''sharpened.jpg'') sample_world))) =
     Ev_log_Fatal (errors_Wrap (Library ''permission denied'') ''Cannot create file: sharpened.jpg'')
 \<and> concat (map created (trace (fst (main (refusing_create ''sharpened.jpg'') sample_world)))) =
     [''cropped.jpg'', ''saturated.jpg'', ''multiplied.jpg'', ''sharpened.jpg'']
 \<and> map (files (fst (main (refusing_create ''sharpened.jpg'') sample_world)))
       [''cropped.jpg'', ''saturated.jpg'', ''multiplied.jpg'', ''sharpened.jpg'', ''primitive.jpg'']
     = [Some [0xFF, 0xD8, 101, 85], Some [0xFF, 0xD8, 211, 85], Some [0xFF, 0xD8, 221, 85], None, None]
 \<and> snd (main (refusing_create ''primitive.jpg'') sample_world) = Exit 1
 \<and> last (trace (fst (main (refusing_create ''primitive.jpg'') sample_world))) =
     Ev_log_Fatal (errors_Wrap (Library ''permission denied'') ''Cannot create file: primitive.jpg'')
 \<and> concat (map created (trace (fst (main (refusing_create ''primitive.jpg'') sample_world)))) =
     [''cropped.jpg'', ''saturated.jpg'', ''multiplied.jpg'', ''sharpened.jpg'', ''primitive.jpg'']
 \<and> map (files (fst (main (refusing_create ''primitive.jpg'') sample_world)))
       [''cropped.jpg'', ''saturated.jpg'', ''multiplied.jpg'', ''sharpened.jpg'', ''primitive.jpg'']
     = [Some [0xFF, 0xD8, 101, 85], Some [0xFF, 0xD8, 211, 85], Some [0xFF, 0xD8, 221, 85], Some [0xFF, 0xD8, 241, 85], None]"
proof -
  have "\<exists>w. main sample_env (sample_world\<lparr>files := Map.empty\<rparr>) =
        (emit (Ev_log_Fatal (errors_Wrap (Library ''open original.jpg: no such file or directory'') ''Cannot open original.jpg'')) w, Exit 1)
      \<and> concat (map created (trace w)) = []
      \<and> map (files w) [''cropped.jpg'', ''saturated.jpg'', ''multiplied.jpg'', ''sharpened.jpg'', ''primitive.jpg'']
          = [None, None, None, None, None]"
    apply (rule exI)
    apply (intro conjI)
      apply (rule main_fail_fast [THEN conjunct1, rule_format])
      apply (simp add: sample_step_simps)
      apply (simp add: sample_step_simps)
      apply (simp add: sample_step_simps)
    done
  then obtain w where
    m: "main sample_env (sample_world\<lparr>files := Map.empty\<rparr>) =
        (emit (Ev_log_Fatal (errors_Wrap (Library ''open original.jpg: no such file or directory'') ''Cannot open original.jpg'')) w, Exit 1)"
    and p: "concat (map created (trace w)) = []"
      "map (files w) [''cropped.jpg'', ''saturated.jpg'', ''multiplied.jpg'', ''sharpened.jpg'', ''primitive.jpg'']
          = [None, None, None, None, None]"
    by iprover
  have a:
      "snd (main sample_env (sample_world\<lparr>files := Map.empty\<rparr>)) = Exit 1"
      "last (trace (fst (main sample_env (sample_world\<lparr>files := Map.empty\<rparr>)))) =
           Ev_log_Fatal (errors_Wrap (Library ''open original.jpg: no such file or directory'') ''Cannot open original.jpg'')"
      "concat (map created (trace (fst (main sample_env (sample_world\<lparr>files := Map.empty\<rparr>))))) =
           []"
      "map (files (fst (main sample_env (sample_world\<lparr>files := Map.empty\<rparr>))))
             [''cropped.jpg'', ''saturated.jpg'', ''multiplied.jpg'', ''sharpened.jpg'', ''primitive.jpg'']
           = [None, None, None, None, None]"
    using p by (simp_all add: m emit_def)
  have "\<exists>w. main failing_detector sample_world =
        (emit (Ev_log_Fatal (errors_Wrap (Library ''no crop found'') ''Smartcrop failed'')) w, Exit 1)
      \<and> concat (map created (trace w)) = []
      \<and> map (files w) [''cropped.jpg'', ''saturated.jpg'', ''multiplied.jpg'', ''sharpened.jpg'', ''primitive.jpg'']
          = [None, None, None, None, None]"
    apply (rule exI)
    apply (intro conjI)
      apply (rule main_fail_fast [THEN conjunct2, THEN conjunct1, rule_format])
      apply (simp add: sample_step_simps)
      apply (simp add: sample_step_simps)
      apply (simp add: sample_step_simps)
      apply (simp add: sample_step_simps)
    done
  then obtain w where
    m: "main failing_detector sample_world =
        (emit (Ev_log_Fatal (errors_Wrap (Library ''no crop found'') ''Smartcrop failed'')) w, Exit 1)"
    and p: "concat (map created (trace w)) = []"
      "map (files w) [''cropped.jpg'', ''saturated.jpg'', ''multiplied.jpg'', ''sharpened.jpg'', ''primitive.jpg'']
          = [None, None, None, None, None]"
    by iprover
  have b:
      "snd (main failing_detector sample_world) = Exit 1"
      "last (trace (fst (main failing_detector sample_world))) =
           Ev_log_Fatal (errors_Wrap (Library ''no crop found'') ''Smartcrop failed'')"
      "concat (map created (trace (fst (main failing_detector sample_world)))) =
           []"
      "map (files (fst (main failing_detector sample_world)))
             [''cropped.jpg'', ''saturated.jpg'', ''multiplied.jpg'', ''sharpened.jpg'', ''primitive.jpg'']
           = [None, None, None, None, None]"
    using p by (simp_all add: m emit_def)
  have "\<exists>w. main (refusing_create ''cropped.jpg'') sample_world =
        (emit (Ev_log_Fatal (errors_Wrap (Library ''permission denied'') ''Cannot create file: cropped.jpg'')) w, Exit 1)
      \<and> concat (map created (trace w)) = [''cropped.jpg'']
      \<and> map (files w) [''cropped.jpg'', ''saturated.jpg'', ''multiplied.jpg'', ''sharpened.jpg'', ''primitive.jpg'']
          = [None, None, None, None, None]"
    apply (rule exI)
    apply (intro conjI)
      apply (rule main_fail_fast [THEN conjunct2, THEN conjunct2, THEN conjunct1, rule_format])
      apply (simp add: sample_step_simps)
      apply (simp add: sample_step_simps)
      apply (simp add: sample_step_simps)
      apply (simp add: sample_step_simps)
      apply (simp add: sample_step_simps)
    done
  then obtain w where
    m: "main (refusing_create ''cropped.jpg'') sample_world =
        (emit (Ev_log_Fatal (errors_Wrap (Library ''permission denied'') ''Cannot create file: cropped.jpg'')) w, Exit 1)"
    and p: "concat (map created (trace w)) = [''cropped.jpg'']"
      "map (files w) [''cropped.jpg'', ''saturated.jpg'', ''multiplied.jpg'', ''sharpened.jpg'', ''primitive.jpg'']
          = [None, None, None, None, None]"
    by iprover
  have c:
      "snd (main (refusing_create ''cropped.jpg'') sample_world) = Exit 1"
      "last (trace (fst (main (refusing_create ''cropped.jpg'') sample_world))) =
           Ev_log_Fatal (errors_Wrap (Library ''permission denied'') ''Cannot create file: cropped.jpg'')"
      "concat (map created (trace (fst (main (refusing_create ''cropped.jpg'') sample_world)))) =
           [''cropped.jpg'']"
      "map (files (fst (main (refusing_create ''cropped.jpg'') sample_world)))
             [''cropped.jpg'', ''saturated.jpg'', ''multiplied.jpg'', ''sharpened.jpg'', ''primitive.jpg'']
           = [None, None, None, None, None]"
    using p by (simp_all add: m emit_def)
  have "\<exists>w. main (refusing_open ''cropped.jpg'') sample_world =
        (emit (Ev_log_Fatal (errors_Wrap (Library ''permission denied'') ''Cannot open cropped.jpg'')) w, Exit 1)
      \<and> concat (map created (trace w)) = [''cropped.jpg'']
      \<and> map (files w) [''cropped.jpg'', ''saturated.jpg'', ''multiplied.jpg'', ''sharpened.jpg'', ''primitive.jpg'']
          = [Some [0xFF, 0xD8, 101, 85], None, None, None, None]"
    apply (rule exI)
    apply (intro conjI)
      apply (rule main_fail_fast [THEN conjunct2, THEN conjunct2, THEN conjunct2, THEN conjunct1, rule_format])
      apply (simp add: sample_step_simps)
      apply (simp add: sample_step_simps)
      apply (simp add: sample_step_simps)
      apply (simp add: sample_step_simps)
      apply (simp add: sample_step_simps)
      apply (simp add: sample_step_simps)
    done
  then obtain w where
    m: "main (refusing_open ''cropped.jpg'') sample_world =
        (emit (Ev_log_Fatal (errors_Wrap (Library ''permission denied'') ''Cannot open cropped.jpg'')) w, Exit 1)"
    and p: "concat (map created (trace w)) = [''cropped.jpg'']"
      "map (files w) [''cropped.jpg'', ''saturated.jpg'', ''multiplied.jpg'', ''sharpened.jpg'', ''primitive.jpg'']
          = [Some [0xFF, 0xD8, 101, 85], None, None, None, None]"
    by iprover
  have d:
      "snd (main (refusing_open ''cropped.jpg'') sample_world) = Exit 1"
      "last (trace (fst (main (refusing_open ''cropped.jpg'') sample_world))) =
           Ev_log_Fatal (errors_Wrap (Library ''permission denied'') ''Cannot open cropped.jpg'')"
      "concat (map created (trace (fst (main (refusing_open ''cropped.jpg'') sample_world)))) =
           [''cropped.jpg'']"
      "map (files (fst (main (refusing_open ''cropped.jpg'') sample_world)))
             [''cropped.jpg'', ''saturated.jpg'', ''multiplied.jpg'', ''sharpened.jpg'', ''primitive.jpg'']
           = [Some [0xFF, 0xD8, 101, 85], None, None, None, None]"
    using p by (simp_all add: m emit_def)
  have "\<exists>w. main (refusing_create ''saturated.jpg'') sample_world =
        (emit (Ev_log_Fatal (errors_Wrap (Library ''permission denied'') ''Cannot create file: saturated.jpg'')) w, Exit 1)
      \<and> concat (map created (trace w)) = [''cropped.jpg'', ''saturated.jpg'']
      \<and> map (files w) [''cropped.jpg'', ''saturated.jpg'', ''multiplied.jpg'', ''sharpened.jpg'', ''primitive.jpg'']
          = [Some [0xFF, 0xD8, 101, 85], None, None, None, None]"
    apply (rule exI)
    apply (intro conjI)
      apply (rule main_fail_fast [THEN conjunct2, THEN conjunct2, THEN conjunct2, THEN conjunct2, THEN conjunct1, rule_format])
      apply (simp add: sample_step_simps)
      apply (simp add: sample_step_simps)
      apply (simp add: sample_step_simps)
      apply (simp add: sample_step_simps)
      apply (simp add: sample_step_simps)
      apply (simp add: sample_step_simps)
      apply (simp add: sample_step_simps)
      apply (simp add: sample_step_simps)
    done
  then obtain w where
    m: "main (refusing_create ''saturated.jpg'') sample_world =
        (emit (Ev_log_Fatal (errors_Wrap (Library ''permission denied'') ''Cannot create file: saturated.jpg'')) w, Exit 1)"
    and p: "concat (map created (trace w)) = [''cropped.jpg'', ''saturated.jpg'']"
      "map (files w) [''cropped.jpg'', ''saturated.jpg'', ''multiplied.jpg'', ''sharpened.jpg'', ''primitive.jpg'']
          = [Some [0xFF, 0xD8, 101, 85], None, None, None, None]"
    by iprover
  have e:
      "snd (main (refusing_create ''saturated.jpg'') sample_world) = Exit 1"
      "last (trace (fst (main (refusing_create ''saturated.jpg'') sample_world))) =
           Ev_log_Fatal (errors_Wrap (Library ''permission denied'') ''Cannot create file: saturated.jpg'')"
      "concat (map created (trace (fst (main (refusing_create ''saturated.jpg'') sample_world)))) =
           [''cropped.jpg'', ''saturated.jpg'']"
      "map (files (fst (main (refusing_create ''saturated.jpg'') sample_world)))
             [''cropped.jpg'', ''saturated.jpg'', ''multiplied.jpg'', ''sharpened.jpg'', ''primitive.jpg'']
           = [Some [0xFF, 0xD8, 101, 85], None, None, None, None]"
    using p by (simp_all add: m emit_def)
  have "\<exists>w. main (refusing_create ''multiplied.jpg'') sample_world =
        (emit (Ev_log_Fatal (errors_Wrap (Library ''permission denied'') ''Cannot create file: multiplied.jpg'')) w, Exit 1)
      \<and> concat (map created (trace w)) = [''cropped.jpg'', ''saturated.jpg'', ''multiplied.jpg'']
      \<and> map (files w) [''cropped.jpg'', ''saturated.jpg'', ''multiplied.jpg'', ''sharpened.jpg'', ''primitive.jpg'']
          = [Some [0xFF, 0xD8, 101, 85], Some [0xFF, 0xD8, 211, 85], None, None, None]"
    apply (rule exI)
    apply (intro conjI)
      apply (rule main_fail_fast [THEN conjunct2, THEN conjunct2, THEN conjunct2, THEN conjunct2, THEN conjunct2, THEN conjunct1, rule_format])
      apply (simp add: sample_step_simps)
      apply (simp add: sample_step_simps)
      apply (simp add: sample_step_simps)
      apply (simp add: sample_step_simps)
      apply (simp add: sample_step_simps)
      apply (simp add: sample_step_simps)
      apply (simp add: sample_step_simps)
      apply (simp add: sample_step_simps)
      apply (simp add: sample_step_simps)
      apply (simp add: sample_step_simps)
    done
  then obtain w where
    m: "main (refusing_create ''multiplied.jpg'') sample_world =
        (emit (Ev_log_Fatal (errors_Wrap (Library ''permission denied'') ''Cannot create file: multiplied.jpg'')) w, Exit 1)"
    and p: "concat (map created (trace w)) = [''cropped.jpg'', ''saturated.jpg'', ''multiplied.jpg'']"
      "map (files w) [''cropped.jpg'', ''saturated.jpg'', ''multiplied.jpg'', ''sharpened.jpg'', ''primitive.jpg'']
          = [Some [0xFF, 0xD8, 101, 85], Some [0xFF, 0xD8, 211, 85], None, None, None]"
    by iprover
  have f:
      "snd (main (refusing_create ''multiplied.jpg'') sample_world) = Exit 1"
      "last (trace (fst (main (refusing_create ''multiplied.jpg'') sample_world))) =
           Ev_log_Fatal (errors_Wrap (Library ''permission denied'') ''Cannot create file: multiplied.jpg'')"
      "concat (map created (trace (fst (main (refusing_create ''multiplied.jpg'') sample_world)))) =
           [''cropped.jpg'', ''saturated.jpg'', ''multiplied.jpg'']"
      "map (files (fst (main (refusing_create ''multiplied.jpg'') sample_world)))
             [''cropped.jpg'', ''saturated.jpg'', ''multiplied.jpg'', ''sharpened.jpg'', ''primitive.jpg'']
           = [Some [0xFF, 0xD8, 101, 85], Some [0xFF, 0xD8, 211, 85], None, None, None]"
    using p by (simp_all add: m emit_def)
  have "\<exists>w. main (refusing_create ''sharpened.jpg'') sample_world =
        (emit (Ev_log_Fatal (errors_Wrap (Library ''permission denied'') ''Cannot create file: sharpened.jpg'')) w, Exit 1)
      \<and> concat (map created (trace w)) = [''cropped.jpg'', ''saturated.jpg'', ''multiplied.jpg'', ''sharpened.jpg'']
      \<and> map (files w) [''cropped.jpg'', ''saturated.jpg'', ''multiplied.jpg'', ''sharpened.jpg'', ''primitive.jpg'']
          = [Some [0xFF, 0xD8, 101, 85], Some [0xFF, 0xD8, 211, 85], Some [0xFF, 0xD8, 221, 85], None, None]"
    apply (rule exI)
    apply (intro conjI)
      apply (rule main_fail_fast [THEN conjunct2, THEN conjunct2, THEN conjunct2, THEN conjunct2, THEN conjunct2, THEN conjunct2, THEN conjunct1, rule_format])
      apply (simp add: sample_step_simps)
      apply (simp add: sample_step_simps)
      apply (simp add: sample_step_simps)
      apply (simp add: sample_step_simps)
      apply (simp add: sample_step_simps)
      apply (simp add: sample_step_simps)
      apply (simp add: sample_step_simps)
      apply (simp add: sample_step_simps)
      apply (simp add: sample_step_simps)
      apply (simp add: sample_step_simps)
      apply (simp add: sample_step_simps)
      apply (simp add: sample_step_simps)
    done
  then obtain w where
    m: "main (refusing_create ''sharpened.jpg'') sample_world =
        (emit (Ev_log_Fatal (errors_Wrap (Library ''permission denied'') ''Cannot create file: sharpened.jpg'')) w, Exit 1)"
    and p: "concat (map created (trace w)) = [''cropped.jpg'', ''saturated.jpg'', ''multiplied.jpg'', ''sharpened.jpg'']"
      "map (files w) [''cropped.jpg'', ''saturated.jpg'', ''multiplied.jpg'', ''sharpened.jpg'', ''primitive.jpg'']
          = [Some [0xFF, 0xD8, 101, 85], Some [0xFF, 0xD8, 211, 85], Some [0xFF, 0xD8, 221, 85], None, None]"
    by iprover
  have g:
      "snd (main (refusing_create ''sharpened.jpg'') sample_world) = Exit 1"
      "last (trace (fst (main (refusing_create ''sharpened.jpg'') sample_world))) =
           Ev_log_Fatal (errors_Wrap (Library ''permission denied'') ''Cannot create file: sharpened.jpg'')"
      "concat (map created (trace (fst (main (refusing_create ''sharpened.jpg'') sample_world)))) =
           [''cropped.jpg'', ''saturated.jpg'', ''multiplied.jpg'', ''sharpened.jpg'']"
      "map (files (fst (main (refusing_create ''sharpened.jpg'') sample_world)))
             [''cropped.jpg'', ''saturated.jpg'', ''multiplied.jpg'', ''sharpened.jpg'', ''primitive.jpg'']
           = [Some [0xFF, 0xD8, 101, 85], Some [0xFF, 0xD8, 211, 85], Some [0xFF, 0xD8, 221, 85], None, None]"
    using p by (simp_all add: m emit_def)
  have "\<exists>w. main (refusing_create ''primitive.jpg'') sample_world =
        (emit (Ev_log_Fatal (errors_Wrap (Library ''permission denied'') ''Cannot create file: primitive.jpg'')) w, Exit 1)
      \<and> concat (map created (trace w)) = [''cropped.jpg'', ''saturated.jpg'', ''multiplied.jpg'', ''sharpened.jpg'', ''primitive.jpg'']
      \<and> map (files w) [''cropped.jpg'', ''saturated.jpg'', ''multiplied.jpg'', ''sharpened.jpg'', ''primitive.jpg'']
          = [Some [0xFF, 0xD8, 101, 85], Some [0xFF, 0xD8, 211, 85], Some [0xFF, 0xD8, 221, 85], Some [0xFF, 0xD8, 241, 85], None]"
    apply (rule exI)
    apply (intro conjI)
      apply (rule main_fail_fast [THEN conjunct2, THEN conjunct2, THEN conjunct2, THEN conjunct2, THEN conjunct2, THEN conjunct2, THEN conjunct2, rule_format])
      apply (simp add: sample_step_simps)
      apply (simp add: sample_step_simps)
      apply (simp add: sample_step_simps)
      apply (simp add: sample_step_simps)
      apply (simp add: sample_step_simps)
      apply (simp add: sample_step_simps)
      apply (simp add: sample_step_simps)
      apply (simp add: sample_step_simps)
      apply (simp add: sample_step_simps)
      apply (simp add: sample_step_simps)
      apply (simp add: sample_step_simps)
      apply (simp add: sample_step_simps)
      apply (simp add: sample_step_simps)
      apply (simp add: sample_step_simps)
    done
  then obtain w where
    m: "main (refusing_create ''primitive.jpg'') sample_world =
        (emit (Ev_log_Fatal (errors_Wrap (Library ''permission denied'') ''Cannot create file: primitive.jpg'')) w, Exit 1)"
    and p: "concat (map created (trace w)) = [''cropped.jpg'', ''saturated.jpg'', ''multiplied.jpg'', ''sharpened.jpg'', ''primitive.jpg'']"
      "map (files w) [''cropped.jpg'', ''saturated.jpg'', ''multiplied.jpg'', ''sharpened.jpg'', ''primitive.jpg'']
          = [Some [0xFF, 0xD8, 101, 85], Some [0xFF, 0xD8, 211, 85], Some [0xFF, 0xD8, 221, 85], Some [0xFF, 0xD8, 241, 85], None]"
    by iprover
  have h:
      "snd (main (refusing_create ''primitive.jpg'') sample_world) = Exit 1"
      "last (trace (fst (main (refusing_create ''primitive.jpg'') sample_world))) =
           Ev_log_Fatal (errors_Wrap (Library ''permission denied'') ''Cannot create file: primitive.jpg'')"
      "concat (map created (trace (fst (main (refusing_create ''primitive.jpg'') sample_world)))) =
           [''cropped.jpg'', ''saturated.jpg'', ''multiplied.jpg'', ''sharpened.jpg'', ''primitive.jpg'']"
      "map (files (fst (main (refusing_create ''primitive.jpg'') sample_world)))
             [''cropped.jpg'', ''saturated.jpg'', ''multiplied.jpg'', ''sharpened.jpg'', ''primitive.jpg'']
           = [Some [0xFF, 0xD8, 101, 85], Some [0xFF, 0xD8, 211, 85], Some [0xFF, 0xD8, 221, 85], Some [0xFF, 0xD8, 241, 85], None]"
    using p by (simp_all add: m emit_def)
  show ?thesis
    by (intro conjI) (rule a b c d e f g h)+
qed





section \<open>The effects\<close>





section \<open>Saving\<close>

text \<open>
  Claim C7. \<^verbatim>\<open>saveImage\<close> joins directory and file name into one destination path,
  encodes at the fixed quality 85, and overwrites: when the system lets the file be created
  and the encoder succeeds, the path names exactly the encoder's output afterwards, whatever
  it named before, no other file changes, nothing but the two calls happens and the result
  is \<^verbatim>\<open>nil\<close>.
\<close>

theorem saveImage_overwrites:
  assumes "create_fault E (files w) (path_Join E pname fname) = None"
      and "jpeg_Encode E img 85 = (bs, None)"
  shows "saveImage E w img pname fname =
          (w\<lparr>files := (files w)(path_Join E pname fname \<mapsto> bs),
             trace := trace w @ [Ev_os_Create (path_Join E pname fname),
                                 Ev_jpeg_Encode (path_Join E pname fname) img 85]\<rparr>, None)
       \<and> files (fst (saveImage E w img pname fname)) (path_Join E pname fname) = Some bs
       \<and> (\<forall>p. p \<noteq> path_Join E pname fname \<longrightarrow>
             files (fst (saveImage E w img pname fname)) p = files w p)"
  using assms by (simp add: saveImage_ok)

text \<open>An existing file, \<^verbatim>\<open>original.jpg\<close>, is replaced without a word.\<close>

theorem saveImage_overwrites_witness:
  "create_fault sample_env (files sample_world) (path_Join sample_env ''.'' ''original.jpg'') = None
   \<and> jpeg_Encode sample_env (Raster (Some 7) \<lparr>MinX = 0, MinY = 0, MaxX = 2, MaxY = 2\<rparr>) 85
        = ([0xFF, 0xD8, 7, 85], None)
   \<and> files sample_world ''original.jpg'' = Some [0xFF, 0xD8, 0x01]
   \<and> saveImage sample_env sample_world (Raster (Some 7) \<lparr>MinX = 0, MinY = 0, MaxX = 2, MaxY = 2\<rparr>)
        ''.'' ''original.jpg''
      = (sample_world\<lparr>files := [''original.jpg'' \<mapsto> [0xFF, 0xD8, 7, 85]],
           trace := [Ev_os_Create ''original.jpg'',
                     Ev_jpeg_Encode ''original.jpg''
                       (Raster (Some 7) \<lparr>MinX = 0, MinY = 0, MaxX = 2, MaxY = 2\<rparr>) 85]\<rparr>, None)"
  using saveImage_overwrites [of sample_env sample_world "''.''" "''original.jpg''"
      "Raster (Some 7) \<lparr>MinX = 0, MinY = 0, MaxX = 2, MaxY = 2\<rparr>" "[0xFF, 0xD8, 7, 85]"]
  by (simp add: sample_env_def sample_world_def)

text \<open>
  Claim C9. \<^verbatim>\<open>saveImage\<close> is not atomic: the file is created, and so truncated, before
  the encoder runs. When the encoder then fails, the error comes back wrapped, the
  destination holds what the encoder wrote before it stopped (nothing, or a part), and the
  files are not what they were unless the destination already held exactly that.
\<close>

theorem saveImage_not_atomic:
  assumes "create_fault E (files w) (path_Join E pname fname) = None"
      and "jpeg_Encode E img 85 = (partial, Some err)"
  shows "saveImage E w img pname fname =
          (w\<lparr>files := (files w)(path_Join E pname fname \<mapsto> partial),
             trace := trace w @ [Ev_os_Create (path_Join E pname fname),
                                 Ev_jpeg_Encode (path_Join E pname fname) img 85]\<rparr>,
           Some (errors_Wrap err ''Failed to encode the image as JPEG''))
       \<and> files (fst (saveImage E w img pname fname)) (path_Join E pname fname) = Some partial
       \<and> (files w (path_Join E pname fname) \<noteq> Some partial \<longrightarrow>
             files (fst (saveImage E w img pname fname)) \<noteq> files w)"
proof -
  let ?p = "path_Join E pname fname"
  have eq: "saveImage E w img pname fname =
          (w\<lparr>files := (files w)(?p \<mapsto> partial),
             trace := trace w @ [Ev_os_Create ?p, Ev_jpeg_Encode ?p img 85]\<rparr>,
           Some (errors_Wrap err ''Failed to encode the image as JPEG''))"
    using assms by (rule saveImage_encode_fails)
  have "(files w)(?p \<mapsto> partial) \<noteq> files w" if "files w ?p \<noteq> Some partial"
  proof
    assume "(files w)(?p \<mapsto> partial) = files w"
    then have "((files w)(?p \<mapsto> partial)) ?p = files w ?p" by simp
    with that show False by simp
  qed
  with eq show ?thesis by simp
qed

text \<open>Encoding an image that is too large leaves \<^verbatim>\<open>original.jpg\<close> empty.\<close>

theorem saveImage_not_atomic_witness:
  "create_fault sample_env (files sample_world) (path_Join sample_env ''.'' ''original.jpg'') = None
   \<and> jpeg_Encode sample_env (Uniform (Colour 0 0 0 255)) 85
        = ([], Some (Library ''jpeg: image is too large to encode''))
   \<and> files sample_world ''original.jpg'' = Some [0xFF, 0xD8, 0x01]
   \<and> snd (saveImage sample_env sample_world (Uniform (Colour 0 0 0 255)) ''.'' ''original.jpg'')
      = Some (errors_Wrap (Library ''jpeg: image is too large to encode'')
                 ''Failed to encode the image as JPEG'')
   \<and> files (fst (saveImage sample_env sample_world (Uniform (Colour 0 0 0 255)) ''.'' ''original.jpg''))
        ''original.jpg'' = Some []
   \<and> files (fst (saveImage sample_env sample_world (Uniform (Colour 0 0 0 255)) ''.'' ''original.jpg''))
       \<noteq> files sample_world"
proof -
  have j: "path_Join sample_env ''.'' ''original.jpg'' = ''original.jpg''"
    by (simp add: sample_env_def)
  have h1: "create_fault sample_env (files sample_world) (path_Join sample_env ''.'' ''original.jpg'') = None"
    by (simp add: sample_env_def)
  have h2: "jpeg_Encode sample_env (Uniform (Colour 0 0 0 255)) 85
        = ([], Some (Library ''jpeg: image is too large to encode''))"
    by (simp add: sample_env_def)
  have h3: "files sample_world ''original.jpg'' = Some [0xFF, 0xD8, 0x01]"
    by (simp add: sample_world_def)
  note t = saveImage_not_atomic [OF h1 h2, unfolded j]
  from t have a: "saveImage sample_env sample_world (Uniform (Colour 0 0 0 255)) ''.'' ''original.jpg'' =
      (sample_world\<lparr>files := (files sample_world)(''original.jpg'' \<mapsto> []),
         trace := trace sample_world @ [Ev_os_Create ''original.jpg'',
           Ev_jpeg_Encode ''original.jpg'' (Uniform (Colour 0 0 0 255)) 85]\<rparr>,
       Some (errors_Wrap (Library ''jpeg: image is too large to encode'')
               ''Failed to encode the image as JPEG''))"
    by (rule conjunct1)
  from t have "files sample_world ''original.jpg'' \<noteq> Some [] \<longrightarrow>
      files (fst (saveImage sample_env sample_world (Uniform (Colour 0 0 0 255))
      ''.'' ''original.jpg'')) \<noteq> files sample_world"
    by (rule conjunct2 [THEN conjunct2])
  with h3 have c: "files (fst (saveImage sample_env sample_world (Uniform (Colour 0 0 0 255))
      ''.'' ''original.jpg'')) \<noteq> files sample_world"
    by simp
  from h1 h2 h3 c show ?thesis
    by (simp add: a)
qed


section \<open>Cropping\<close>









end
